theory Spec2Isabelle
  imports Complex_Main "HOL-Library.Word"
begin

section \<open>JavaScript values\<close>

text \<open>
  A JavaScript \<^verbatim>\<open>number\<close>: a finite value (every double is a rational; \<^verbatim>\<open>-0\<close> is
  \<open>Num 0\<close>), \<^verbatim>\<open>NaN\<close>, or one of the two infinities. An optional parameter that was
  not supplied is \<open>None\<close>. \<open>truthy\<close> is the test of \<^verbatim>\<open>x ? a : b\<close>:
  \<^verbatim>\<open>undefined\<close>, \<^verbatim>\<open>0\<close> and \<^verbatim>\<open>NaN\<close> are falsy, every other number is truthy.
\<close>

datatype number = Num rat | NaN | PosInfinity | NegInfinity

fun truthy :: "number option \<Rightarrow> bool" where
  "truthy None = False"
| "truthy (Some NaN) = False"
| "truthy (Some (Num n)) = (n \<noteq> 0)"
| "truthy (Some PosInfinity) = True"
| "truthy (Some NegInfinity) = True"

text \<open>
  A thrown value: \<open>Error m\<close> is \<^verbatim>\<open>new Error(m)\<close> (or a subclass such as TypeError);
  \<open>Thrown\<close> is a thrown value that is not an instance of Error.
\<close>

datatype jsError = Error string | Thrown string

text \<open>\<^verbatim>\<open>err instanceof Error ? err.message : 'unknown error'\<close>\<close>

fun errorMessage :: "jsError \<Rightarrow> string" where
  "errorMessage (Error m) = m"
| "errorMessage (Thrown v) = ''unknown error''"

text \<open>The decimal rendering of a length inside a template string.\<close>

function string_of_nat :: "nat \<Rightarrow> string" where
  "string_of_nat n =
     (if n < 10 then [''0123456789'' ! n]
      else string_of_nat (n div 10) @ [''0123456789'' ! (n mod 10)])"
  by pat_completeness auto
termination
  by (relation "measure (\<lambda>n. n)") auto

declare string_of_nat.simps [simp del]

section \<open>The XDR data model of an authorization entry\<close>

text \<open>
  The structures of \<^verbatim>\<open>xdr.SorobanAuthorizationEntry\<close> that the service reads. An address
  of any of the five kinds of the \<^verbatim>\<open>ScAddress\<close> union is kept by its StrKey text (G..., C...,
  M..., B..., L...), which is what \<^verbatim>\<open>Address.fromScAddress(a).toString()\<close> returns for it.
  The result type keeps the \<^verbatim>\<open>throw\<close> of the SDK's default branch, which no address of
  these five kinds reaches.
\<close>

datatype scAddress =
    ScAddressTypeAccount string
  | ScAddressTypeContract string
  | ScAddressTypeMuxedAccount string
  | ScAddressTypeClaimableBalance string
  | ScAddressTypeLiquidityPool string

fun addressToString :: "scAddress \<Rightarrow> jsError + string" where
  "addressToString (ScAddressTypeAccount s) = Inr s"
| "addressToString (ScAddressTypeContract s) = Inr s"
| "addressToString (ScAddressTypeMuxedAccount s) = Inr s"
| "addressToString (ScAddressTypeClaimableBalance s) = Inr s"
| "addressToString (ScAddressTypeLiquidityPool s) = Inr s"

text \<open>\<^verbatim>\<open>Int128Parts\<close>: the signed high half and the unsigned low half of an i128.\<close>

record int128Parts =
  hi :: "64 word"
  lo :: "64 word"

text \<open>
  Byte strings are kept symbolically, by how they were made:
  \<^verbatim>\<open>Buffer.from(s, 'base64')\<close> and the raw key of a StrKey address.
\<close>

datatype buffer = BufferFromBase64 string | RawPublicKey string

datatype scVal =
    ScvVoid
  | ScvBool bool
  | ScvU32 "32 word"
  | ScvI32 "32 word"
  | ScvU64 "64 word"
  | ScvI64 "64 word"
  | ScvI128 int128Parts
  | ScvBytes buffer
  | ScvSymbol string
  | ScvAddress scAddress
  | ScvVec "scVal list"
  | ScvMap "(scVal \<times> scVal) list"

text \<open>The arm accessors of the XDR union: reading an arm that is not set throws a TypeError.\<close>

fun u32 :: "scVal \<Rightarrow> jsError + 32 word" where
  "u32 (ScvU32 w) = Inr w"
| "u32 v = Inl (Error ''u32 not set'')"

fun i128 :: "scVal \<Rightarrow> jsError + int128Parts" where
  "i128 (ScvI128 p) = Inr p"
| "i128 v = Inl (Error ''i128 not set'')"

text \<open>The value an i128 carries, and the two halves of a bigint written as an i128.\<close>

definition i128Value :: "int128Parts \<Rightarrow> int" where
  "i128Value p = sint (hi p) * 2 ^ 64 + uint (lo p)"

definition i128OfInt :: "int \<Rightarrow> int128Parts" where
  "i128OfInt n = \<lparr>hi = word_of_int (n div 2 ^ 64), lo = word_of_int n\<rparr>"

record sorobanAddressCredentials =
  address :: scAddress
  nonce :: "64 word"
  signatureExpirationLedger :: "32 word"
  signature :: scVal

datatype sorobanCredentials =
    SorobanCredentialsSourceAccount
  | SorobanCredentialsAddress sorobanAddressCredentials

record invokeContractArgs =
  contractAddress :: scAddress
  functionName :: string
  args :: "scVal list"

datatype sorobanAuthorizedFunction =
    ContractFn invokeContractArgs
  | CreateContractHostFn
  | CreateContractV2HostFn

datatype sorobanAuthorizedInvocation =
  Invocation (fn: sorobanAuthorizedFunction) (subInvocations: "sorobanAuthorizedInvocation list")

record sorobanAuthorizationEntry =
  credentials :: sorobanCredentials
  rootInvocation :: sorobanAuthorizedInvocation

text \<open>
  The spec's \<open>signerAddress\<close> of an entry: present only for address credentials.
\<close>

definition signerAddress :: "sorobanAuthorizationEntry \<Rightarrow> string option" where
  "signerAddress entry =
     (case credentials entry of
        SorobanCredentialsSourceAccount \<Rightarrow> None
      | SorobanCredentialsAddress cred \<Rightarrow>
          (case addressToString (address cred) of Inl e \<Rightarrow> None | Inr s \<Rightarrow> Some s))"

text \<open>\<^verbatim>\<open>credentials.switch().name\<close>\<close>

fun switchName :: "sorobanCredentials \<Rightarrow> string" where
  "switchName SorobanCredentialsSourceAccount = ''sorobanCredentialsSourceAccount''"
| "switchName (SorobanCredentialsAddress c) = ''sorobanCredentialsAddress''"

text \<open>\<^verbatim>\<open>rootInvocation.function().contractFn()\<close>: the arm accessor of the function union.\<close>

fun contractFn :: "sorobanAuthorizedFunction \<Rightarrow> jsError + invokeContractArgs" where
  "contractFn (ContractFn c) = Inr c"
| "contractFn f = Inl (Error ''contractFn not set'')"

text \<open>
  The payload a signer signs, \<^verbatim>\<open>HashIdPreimage.envelopeTypeSorobanAuthorization\<close>: the
  network id (the hash of the passphrase, kept as the passphrase it hashes), the nonce,
  the invocation and the expiration ledger.
\<close>

datatype hashIdPreimage =
  EnvelopeTypeSorobanAuthorization string "64 word" sorobanAuthorizedInvocation "32 word"

section \<open>The ledger client, the wallet and the requests the service makes\<close>

record clientOptions =
  contractId :: string
  networkPassphrase :: string
  rpcUrl :: string
  publicKey :: "string option"

record methodOptions =
  timeoutInSeconds :: nat

record startGameArgs =
  session_id :: number
  player1 :: string
  player2 :: string
  player1_points :: int
  player2_points :: int

text \<open>
  An assembled transaction, as far as the service reads it:
  \<^verbatim>\<open>tx.simulationData?.result?.auth\<close>, each link of which may be undefined.
\<close>

record simulationResult =
  auth :: "sorobanAuthorizationEntry list option"

record simulationData =
  result :: "simulationResult option"

record assembledTransaction =
  simulationData :: "simulationData option"

definition simulationAuth :: "assembledTransaction \<Rightarrow> sorobanAuthorizationEntry list option" where
  "simulationAuth tx =
     (case simulationData tx of
        None \<Rightarrow> None
      | Some d \<Rightarrow> (case result d of None \<Rightarrow> None | Some r \<Rightarrow> auth r))"

text \<open>
  A read-only query: \<^verbatim>\<open>tx.simulate()\<close> resolves or rejects, and the \<^verbatim>\<open>result\<close> getter
  of what it resolves to returns the contract's \<^verbatim>\<open>Result\<close> or throws.
\<close>

datatype 'a contractResult = Ok 'a | Err string

fun isOk :: "'a contractResult \<Rightarrow> bool" where
  "isOk (Ok v) = True"
| "isOk (Err e) = False"

fun unwrap :: "'a contractResult \<Rightarrow> jsError + 'a" where
  "unwrap (Ok v) = Inr v"
| "unwrap (Err e) = Inl (Error e)"

record 'a simulatedQuery =
  queryResult :: "jsError + 'a contractResult"

record 'a queryTransaction =
  simulate :: "jsError + 'a simulatedQuery"

text \<open>The wallet: \<^verbatim>\<open>Pick<ClientOptions, 'signTransaction' | 'signAuthEntry'>\<close>.\<close>

record walletError =
  message :: string

record signAuthEntryResult =
  error :: "walletError option"
  signedAuthEntry :: string

datatype signAuthEntryOptions =
  SignAuthEntryOptions (optNetworkPassphrase: string) (optAddress: string)

record signer =
  signAuthEntry ::
    "(string \<Rightarrow> signAuthEntryOptions \<Rightarrow> jsError + signAuthEntryResult) option"

text \<open>
  Every request that leaves the service (to the RPC server through the contract client,
  to the ledger utilities, to the wallet) is recorded, in order, with its arguments.
\<close>

datatype call =
    StartGame clientOptions startGameArgs methodOptions
  | GetGame clientOptions number
  | GetHandValue clientOptions number string
  | Simulate
  | CalculateValidUntilLedger string number
  | SignAuthEntry string signAuthEntryOptions
  | CompleteLocalSigning assembledTransaction string

type_synonym 'a io = "call list \<times> (jsError + 'a)"

definition io_return :: "'a \<Rightarrow> 'a io" where
  "io_return x = ([], Inr x)"

definition io_throw :: "jsError \<Rightarrow> 'a io" where
  "io_throw e = ([], Inl e)"

definition io_call :: "call \<Rightarrow> jsError + 'a \<Rightarrow> 'a io" where
  "io_call c response = ([c], response)"

text \<open>\<^verbatim>\<open>await\<close> and sequencing: a rejection ends the function, with the requests made so far.\<close>

definition io_bind :: "'a io \<Rightarrow> ('a \<Rightarrow> 'b io) \<Rightarrow> 'b io" where
  "io_bind m f =
     (case snd m of
        Inl e \<Rightarrow> (fst m, Inl e)
      | Inr x \<Rightarrow> (fst m @ fst (f x), snd (f x)))"

text \<open>
  What the service imports and does not define: the constants of \<^verbatim>\<open>utils/constants\<close>,
  the generated contract client, \<^verbatim>\<open>calculateValidUntilLedger\<close> of \<^verbatim>\<open>utils/ledgerUtils\<close>,
  and the XDR writer, reader and signature check of the SDK. They are parameters.
  \<open>verify pk preimage sig\<close> is \<^verbatim>\<open>Keypair.fromPublicKey(pk).verify(hash(preimage), sig)\<close>,
  which throws when \<open>pk\<close> is not an ed25519 account key.
  The last field answers for the re-simulation and the signing of the local party's own
  entries inside \<^verbatim>\<open>injectSignedAuthEntry\<close>.

  Where a parameter of a service method has the name of a record field of this theory
  (\<^verbatim>\<open>sessionId\<close>, \<^verbatim>\<open>player1\<close>, \<^verbatim>\<open>player2\<close>), the definitions below write
  \<open>sid\<close>, \<open>p1\<close>, \<open>p2\<close>.
\<close>

record 'g env =
  TWENTY_ONE_CONTRACT :: string
  NETWORK_PASSPHRASE :: string
  RPC_URL :: string
  DEFAULT_METHOD_OPTIONS :: methodOptions
  MULTI_SIG_AUTH_TTL_MINUTES :: number
  start_game :: "clientOptions \<Rightarrow> startGameArgs \<Rightarrow> methodOptions \<Rightarrow> jsError + assembledTransaction"
  get_game :: "clientOptions \<Rightarrow> number \<Rightarrow> jsError + 'g queryTransaction"
  get_hand_value :: "clientOptions \<Rightarrow> number \<Rightarrow> string \<Rightarrow> jsError + number queryTransaction"
  calculateValidUntilLedger :: "string \<Rightarrow> number \<Rightarrow> jsError + 32 word"
  fromXDR :: "string \<Rightarrow> jsError + sorobanAuthorizationEntry"
  toXDR :: "sorobanAuthorizationEntry \<Rightarrow> string"
  preimageToXDR :: "hashIdPreimage \<Rightarrow> string"
  verify :: "string \<Rightarrow> hashIdPreimage \<Rightarrow> buffer \<Rightarrow> jsError + bool"
  txToXDR :: "assembledTransaction \<Rightarrow> string"
  completeLocalSigning ::
    "assembledTransaction \<Rightarrow> string \<Rightarrow> signer \<Rightarrow> jsError + assembledTransaction"

text \<open>The options of \<^verbatim>\<open>new TwentyOneClient({...})\<close>; the base client has no public key.\<close>

definition twentyOneClient :: "'g env \<Rightarrow> string option \<Rightarrow> clientOptions" where
  "twentyOneClient env pk =
     \<lparr>contractId = TWENTY_ONE_CONTRACT env, networkPassphrase = NETWORK_PASSPHRASE env,
      rpcUrl = RPC_URL env, publicKey = pk\<rparr>"

section \<open>getGame and getHandValue\<close>

text \<open>
  The \<^verbatim>\<open>try\<close> block of both queries; \<open>None\<close> is \<^verbatim>\<open>null\<close>. The \<^verbatim>\<open>catch\<close>, which logs
  and returns \<^verbatim>\<open>null\<close>, is \<open>catchNull\<close>.
\<close>

definition queryBody :: "'a queryTransaction \<Rightarrow> 'a option io" where
  "queryBody tx =
     io_bind (io_call Simulate (simulate tx)) (\<lambda>res.
       case queryResult res of
         Inl e \<Rightarrow> io_throw e
       | Inr r \<Rightarrow>
           if isOk r then
             (case unwrap r of Inl e \<Rightarrow> io_throw e | Inr v \<Rightarrow> io_return (Some v))
           else io_return None)"

definition catchNull :: "'a option io \<Rightarrow> 'a option io" where
  "catchNull m = (fst m, case snd m of Inl err \<Rightarrow> Inr None | Inr v \<Rightarrow> Inr v)"

definition getGame :: "'g env \<Rightarrow> number \<Rightarrow> 'g option io" where
  "getGame env sid =
     catchNull
       (io_bind (io_call (GetGame (twentyOneClient env None) sid)
                   (get_game env (twentyOneClient env None) sid))
          queryBody)"

definition getHandValue :: "'g env \<Rightarrow> number \<Rightarrow> string \<Rightarrow> number option io" where
  "getHandValue env sid player =
     catchNull
       (io_bind (io_call (GetHandValue (twentyOneClient env None) sid player)
                   (get_hand_value env (twentyOneClient env None) sid player))
          queryBody)"

section \<open>parseAuthEntry\<close>

record gameParams =
  sessionId :: number
  player1' :: string
  player1Points :: int

text \<open>
  The body of the \<^verbatim>\<open>try\<close> block of \<^verbatim>\<open>parseAuthEntry\<close>, after the artifact has been read
  into an entry: every \<^verbatim>\<open>throw\<close> is an \<open>Inl\<close>.
\<close>

definition parseAuthEntryBody :: "sorobanAuthorizationEntry \<Rightarrow> jsError + gameParams" where
  "parseAuthEntryBody authEntry =
     (case credentials authEntry of
        SorobanCredentialsSourceAccount \<Rightarrow>
          Inl (Error (''Unsupported credentials type: '' @
                      switchName SorobanCredentialsSourceAccount))
      | SorobanCredentialsAddress cred \<Rightarrow>
          (case addressToString (address cred) of
             Inl e \<Rightarrow> Inl e
           | Inr p1 \<Rightarrow>
               (case contractFn (fn (rootInvocation authEntry)) of
                  Inl e \<Rightarrow> Inl e
                | Inr cf \<Rightarrow>
                    if functionName cf \<noteq> ''start_game'' then
                      Inl (Error (''Invalid function name: '' @ functionName cf @
                                  ''. Expected start_game''))
                    else if length (args cf) \<noteq> 2 then
                      Inl (Error (''Invalid number of arguments: '' @
                                  string_of_nat (length (args cf)) @ ''. Expected 2''))
                    else
                      (case u32 (args cf ! 0) of
                         Inl e \<Rightarrow> Inl e
                       | Inr sid \<Rightarrow>
                           (case i128 (args cf ! 1) of
                              Inl e \<Rightarrow> Inl e
                            | Inr parts \<Rightarrow>
                                Inr \<lparr>sessionId = Num (of_int (uint sid)), player1' = p1,
                                     player1Points = uint (lo parts)\<rparr>)))))"

text \<open>
  \<^verbatim>\<open>parseAuthEntry\<close>: the reader \<^verbatim>\<open>xdr.SorobanAuthorizationEntry.fromXDR(s, 'base64')\<close>
  throws on text that is not an entry, and the \<^verbatim>\<open>catch\<close> rethrows every failure as an
  Error with a prefixed message.
\<close>

definition parseAuthEntry :: "'g env \<Rightarrow> string \<Rightarrow> jsError + gameParams" where
  "parseAuthEntry env authEntryXDR =
     (case (case fromXDR env authEntryXDR of
              Inl e \<Rightarrow> Inl e
            | Inr authEntry \<Rightarrow> parseAuthEntryBody authEntry) of
        Inl err \<Rightarrow> Inl (Error (''Failed to parse auth entry: '' @ errorMessage err))
      | Inr params \<Rightarrow> Inr params)"

section \<open>prepareStartGame\<close>

text \<open>
  The \<^verbatim>\<open>for\<close> loop over \<^verbatim>\<open>authEntries\<close>: an entry whose credentials are not address
  credentials is skipped (\<^verbatim>\<open>continue\<close>), an entry whose address cannot be rendered is
  skipped (the \<^verbatim>\<open>catch\<close>), and the first entry whose address text is \<^verbatim>\<open>===\<close> to
  \<^verbatim>\<open>player1\<close> ends the loop (\<^verbatim>\<open>break\<close>). \<open>None\<close> is \<^verbatim>\<open>null\<close>.
\<close>

fun findPlayer1AuthEntry ::
  "sorobanAuthorizationEntry list \<Rightarrow> string \<Rightarrow> sorobanAuthorizationEntry option" where
  "findPlayer1AuthEntry [] p1 = None"
| "findPlayer1AuthEntry (entry # rest) p1 =
     (case credentials entry of
        SorobanCredentialsSourceAccount \<Rightarrow> findPlayer1AuthEntry rest p1
      | SorobanCredentialsAddress cred \<Rightarrow>
          (case addressToString (address cred) of
             Inl e \<Rightarrow> findPlayer1AuthEntry rest p1
           | Inr entryAddressString \<Rightarrow>
               if entryAddressString = p1 then Some entry
               else findPlayer1AuthEntry rest p1))"

text \<open>
  The callback handed to \<^verbatim>\<open>authorizeEntry\<close>: it asks the wallet to sign the preimage and
  throws when the wallet's answer carries an error.
\<close>

definition signPreimage :: "'g env \<Rightarrow> signer \<Rightarrow> string \<Rightarrow> hashIdPreimage \<Rightarrow> buffer io" where
  "signPreimage env player1Signer p1 preimage =
     (case signAuthEntry player1Signer of
        None \<Rightarrow> io_throw (Error ''Wallet does not support auth entry signing'')
      | Some sign \<Rightarrow>
          io_bind
            (io_call
               (SignAuthEntry (preimageToXDR env preimage)
                  (SignAuthEntryOptions (NETWORK_PASSPHRASE env) p1))
               (sign (preimageToXDR env preimage)
                  (SignAuthEntryOptions (NETWORK_PASSPHRASE env) p1)))
            (\<lambda>signResult.
               case error signResult of
                 Some err \<Rightarrow> io_throw (Error (''Failed to sign auth entry: '' @ message err))
               | None \<Rightarrow> io_return (BufferFromBase64 (signedAuthEntry signResult))))"

text \<open>
  \<^verbatim>\<open>authorizeEntry\<close> of the SDK: an entry with source-account credentials is returned as
  it is; otherwise a copy of the entry gets the expiration ledger, the callback signs the
  preimage built from the copy, the signature is checked against the key of the entry's
  address (a check that throws for an address that is not an account key, and fails for
  a signature that does not fit) and stored in the copy, which is returned. The entry
  passed in is not changed.
\<close>

definition authorizeEntry ::
  "'g env \<Rightarrow> sorobanAuthorizationEntry \<Rightarrow> (hashIdPreimage \<Rightarrow> buffer io) \<Rightarrow> 32 word \<Rightarrow> string
     \<Rightarrow> sorobanAuthorizationEntry io" where
  "authorizeEntry env entry signerFn validUntilLedgerSeq passphrase =
     (case credentials entry of
        SorobanCredentialsSourceAccount \<Rightarrow> io_return entry
      | SorobanCredentialsAddress addrAuth \<Rightarrow>
          io_bind
            (signerFn (EnvelopeTypeSorobanAuthorization passphrase (nonce addrAuth)
                         (rootInvocation entry) validUntilLedgerSeq))
            (\<lambda>sig.
               case addressToString (address addrAuth) of
                 Inl e \<Rightarrow> io_throw e
               | Inr pk \<Rightarrow>
                   (case verify env pk
                           (EnvelopeTypeSorobanAuthorization passphrase (nonce addrAuth)
                              (rootInvocation entry) validUntilLedgerSeq) sig of
                      Inl e \<Rightarrow> io_throw e
                    | Inr valid \<Rightarrow>
                        if valid then
                          io_return
                            (entry\<lparr>credentials :=
                               SorobanCredentialsAddress
                                 (addrAuth\<lparr>signatureExpirationLedger := validUntilLedgerSeq,
                                           signature :=
                                             ScvVec [ScvMap
                                               [(ScvSymbol ''public_key'',
                                                 ScvBytes (RawPublicKey pk)),
                                                (ScvSymbol ''signature'', ScvBytes sig)]]\<rparr>)\<rparr>)
                        else io_throw (Error ''signature doesn't match payload''))))"

text \<open>
  \<^verbatim>\<open>authTtlMinutes ? calculateValidUntilLedger(RPC_URL, authTtlMinutes)
                  : calculateValidUntilLedger(RPC_URL, MULTI_SIG_AUTH_TTL_MINUTES)\<close>
\<close>

definition validUntilLedger :: "'g env \<Rightarrow> number option \<Rightarrow> 32 word io" where
  "validUntilLedger env authTtlMinutes =
     (case authTtlMinutes of
        None \<Rightarrow>
          io_call (CalculateValidUntilLedger (RPC_URL env) (MULTI_SIG_AUTH_TTL_MINUTES env))
            (calculateValidUntilLedger env (RPC_URL env) (MULTI_SIG_AUTH_TTL_MINUTES env))
      | Some m \<Rightarrow>
          if truthy (Some m) then
            io_call (CalculateValidUntilLedger (RPC_URL env) m)
              (calculateValidUntilLedger env (RPC_URL env) m)
          else
            io_call (CalculateValidUntilLedger (RPC_URL env) (MULTI_SIG_AUTH_TTL_MINUTES env))
              (calculateValidUntilLedger env (RPC_URL env) (MULTI_SIG_AUTH_TTL_MINUTES env)))"

definition prepareStartGame ::
  "'g env \<Rightarrow> number \<Rightarrow> string \<Rightarrow> string \<Rightarrow> int \<Rightarrow> int \<Rightarrow> signer \<Rightarrow> number option \<Rightarrow> string io" where
  "prepareStartGame env sid p1 p2 p1Points p2Points player1Signer authTtlMinutes =
     io_bind
       (io_call
          (StartGame (twentyOneClient env (Some p2))
             \<lparr>session_id = sid, player1 = p1, player2 = p2,
              player1_points = p1Points, player2_points = p2Points\<rparr>
             (DEFAULT_METHOD_OPTIONS env))
          (start_game env (twentyOneClient env (Some p2))
             \<lparr>session_id = sid, player1 = p1, player2 = p2,
              player1_points = p1Points, player2_points = p2Points\<rparr>
             (DEFAULT_METHOD_OPTIONS env)))
       (\<lambda>tx.
          case simulationAuth tx of
            None \<Rightarrow> io_throw (Error ''No auth entries found in simulation'')
          | Some authEntries \<Rightarrow>
              (case findPlayer1AuthEntry authEntries p1 of
                 None \<Rightarrow>
                   io_throw (Error (''No auth entry found for Player 1 ('' @ p1 @ '')''))
               | Some player1AuthEntry \<Rightarrow>
                   io_bind (validUntilLedger env authTtlMinutes) (\<lambda>validUntilLedgerSeq.
                     case signAuthEntry player1Signer of
                       None \<Rightarrow> io_throw (Error ''signAuthEntry function not available'')
                     | Some sign \<Rightarrow>
                         io_bind
                           (authorizeEntry env player1AuthEntry
                              (signPreimage env player1Signer p1)
                              validUntilLedgerSeq (NETWORK_PASSPHRASE env))
                           (\<lambda>signedAuthEntry. io_return (toXDR env signedAuthEntry)))))"

section \<open>importAndSignAuthEntry\<close>

text \<open>
  Modelled from the spec: the error conditions UnsupportedCredential and AddressMismatch
  of section 7, which \<^verbatim>\<open>utils/authEntryUtils\<close> (not among the sources) raises.
\<close>

definition UnsupportedCredential :: jsError where
  "UnsupportedCredential = Error ''UnsupportedCredential''"

definition AddressMismatch :: jsError where
  "AddressMismatch = Error ''AddressMismatch''"

text \<open>
  Modelled from the spec: the merge step of \<^verbatim>\<open>injectSignedAuthEntry\<close>
  (\<^verbatim>\<open>utils/authEntryUtils\<close>, not among the sources). Section 4.4: ``replace the stub entry
  matching the remote signer's address with the decoded signed entry''; the stub is
  found as the locator of section 4.1 finds it (address credentials, exact address
  equality, first match). \<open>None\<close>: no stub matches.
\<close>

fun replaceStub ::
  "sorobanAuthorizationEntry list \<Rightarrow> string \<Rightarrow> sorobanAuthorizationEntry
     \<Rightarrow> sorobanAuthorizationEntry list option" where
  "replaceStub [] a signedEntry = None"
| "replaceStub (stub # rest) a signedEntry =
     (if signerAddress stub = Some a then Some (signedEntry # rest)
      else (case replaceStub rest a signedEntry of
              None \<Rightarrow> None
            | Some rest' \<Rightarrow> Some (stub # rest')))"

text \<open>
  Modelled from the spec: \<^verbatim>\<open>injectSignedAuthEntry\<close> of \<^verbatim>\<open>utils/authEntryUtils\<close>, which is
  not among the sources. Section 4.4: the artifact is decoded; if the decoded signer
  address does not correspond to any stub in the locally rebuilt bundle, the merge fails
  at once with AddressMismatch, with nothing coerced or ignored; otherwise the matching
  stub is replaced, and the merged bundle is re-simulated and the local party's remaining
  stubs are signed (the parameter \<open>completeLocalSigning\<close>, which stands for the network
  and the wallet in these two steps).
\<close>

definition injectSignedAuthEntry ::
  "'g env \<Rightarrow> assembledTransaction \<Rightarrow> string \<Rightarrow> string \<Rightarrow> signer \<Rightarrow> assembledTransaction io" where
  "injectSignedAuthEntry env tx signedXDR p2 player2Signer =
     (case fromXDR env signedXDR of
        Inl e \<Rightarrow> io_throw e
      | Inr signedEntry \<Rightarrow>
          (case signerAddress signedEntry of
             None \<Rightarrow> io_throw UnsupportedCredential
           | Some a \<Rightarrow>
               (case simulationAuth tx of
                  None \<Rightarrow> io_throw AddressMismatch
                | Some stubs \<Rightarrow>
                    (case replaceStub stubs a signedEntry of
                       None \<Rightarrow> io_throw AddressMismatch
                     | Some merged \<Rightarrow>
                         io_call
                           (CompleteLocalSigning
                              (tx\<lparr>simulationData :=
                                    Some \<lparr>result = Some \<lparr>auth = Some merged\<rparr>\<rparr>\<rparr>) p2)
                           (completeLocalSigning env
                              (tx\<lparr>simulationData :=
                                    Some \<lparr>result = Some \<lparr>auth = Some merged\<rparr>\<rparr>\<rparr>) p2
                              player2Signer)))))"

definition importAndSignAuthEntry ::
  "'g env \<Rightarrow> string \<Rightarrow> string \<Rightarrow> int \<Rightarrow> signer \<Rightarrow> string io" where
  "importAndSignAuthEntry env player1AuthEntryXDR p2 p2Points player2Signer =
     (case parseAuthEntry env player1AuthEntryXDR of
        Inl e \<Rightarrow> io_throw e
      | Inr gameParams \<Rightarrow>
          io_bind
            (io_call
               (StartGame (twentyOneClient env (Some p2))
                  \<lparr>session_id = sessionId gameParams, player1 = player1' gameParams,
                   player2 = p2, player1_points = player1Points gameParams,
                   player2_points = p2Points\<rparr>
                  (DEFAULT_METHOD_OPTIONS env))
               (start_game env (twentyOneClient env (Some p2))
                  \<lparr>session_id = sessionId gameParams, player1 = player1' gameParams,
                   player2 = p2, player1_points = player1Points gameParams,
                   player2_points = p2Points\<rparr>
                  (DEFAULT_METHOD_OPTIONS env)))
            (\<lambda>tx.
               io_bind (injectSignedAuthEntry env tx player1AuthEntryXDR p2 player2Signer)
                 (\<lambda>updatedTx. io_return (txToXDR env updatedTx))))"

section \<open>Reading the record of requests\<close>

fun ttlRequests :: "call list \<Rightarrow> (string \<times> number) list" where
  "ttlRequests [] = []"
| "ttlRequests (CalculateValidUntilLedger url m # cs) = (url, m) # ttlRequests cs"
| "ttlRequests (c # cs) = ttlRequests cs"

fun buildRequests :: "call list \<Rightarrow> (clientOptions \<times> startGameArgs) list" where
  "buildRequests [] = []"
| "buildRequests (StartGame opts a mo # cs) = (opts, a) # buildRequests cs"
| "buildRequests (c # cs) = buildRequests cs"

fun isMerge :: "call \<Rightarrow> bool" where
  "isMerge (CompleteLocalSigning tx p) = True"
| "isMerge c = False"

text \<open>What a wallet's answer makes the signing callback throw, if anything.\<close>

fun signingRejection :: "jsError + signAuthEntryResult \<Rightarrow> jsError option" where
  "signingRejection (Inl e) = Some e"
| "signingRejection (Inr r) =
     (case error r of
        None \<Rightarrow> None
      | Some err \<Rightarrow> Some (Error (''Failed to sign auth entry: '' @ message err)))"

section \<open>A fake ledger, wallet and codec\<close>

text \<open>
  The end-to-end scenario of the spec with fakes in place of the network: the contract
  asks for the authorization of both players over the session id and their own points,
  and the fee payer's entry comes back with source-account credentials.
\<close>

definition ADDR_A :: string where "ADDR_A = ''ADDR_A''"
definition ADDR_B :: string where "ADDR_B = ''ADDR_B''"

definition fakeInvocation :: "string \<Rightarrow> 32 word \<Rightarrow> int \<Rightarrow> sorobanAuthorizedInvocation" where
  "fakeInvocation name sid points =
     Invocation
       (ContractFn \<lparr>contractAddress = ScAddressTypeContract ''CONTRACT'', functionName = name,
                    args = [ScvU32 sid, ScvI128 (i128OfInt points)]\<rparr>) []"

definition fakeStub :: "string \<Rightarrow> 32 word \<Rightarrow> int \<Rightarrow> sorobanAuthorizationEntry" where
  "fakeStub a sid points =
     \<lparr>credentials =
        SorobanCredentialsAddress
          \<lparr>address = ScAddressTypeAccount a, nonce = 7, signatureExpirationLedger = 0,
           signature = ScvVoid\<rparr>,
      rootInvocation = fakeInvocation ''start_game'' sid points\<rparr>"

text \<open>A stub whose signer is a muxed account.\<close>

definition fakeMuxedStub :: "string \<Rightarrow> 32 word \<Rightarrow> int \<Rightarrow> sorobanAuthorizationEntry" where
  "fakeMuxedStub a sid points =
     \<lparr>credentials =
        SorobanCredentialsAddress
          \<lparr>address = ScAddressTypeMuxedAccount a, nonce = 7, signatureExpirationLedger = 0,
           signature = ScvVoid\<rparr>,
      rootInvocation = fakeInvocation ''start_game'' sid points\<rparr>"

definition fakeSourceEntry :: "32 word \<Rightarrow> int \<Rightarrow> sorobanAuthorizationEntry" where
  "fakeSourceEntry sid points =
     \<lparr>credentials = SorobanCredentialsSourceAccount,
      rootInvocation = fakeInvocation ''start_game'' sid points\<rparr>"

definition fakeSigned ::
  "string \<Rightarrow> string \<Rightarrow> 32 word \<Rightarrow> int \<Rightarrow> 32 word \<Rightarrow> sorobanAuthorizationEntry" where
  "fakeSigned a name sid points expiry =
     \<lparr>credentials =
        SorobanCredentialsAddress
          \<lparr>address = ScAddressTypeAccount a, nonce = 7, signatureExpirationLedger = expiry,
           signature =
             ScvVec [ScvMap [(ScvSymbol ''public_key'', ScvBytes (RawPublicKey a)),
                             (ScvSymbol ''signature'', ScvBytes (BufferFromBase64 ''c2ln''))]]\<rparr>,
      rootInvocation = fakeInvocation name sid points\<rparr>"

definition fakeTx :: "sorobanAuthorizationEntry list \<Rightarrow> assembledTransaction" where
  "fakeTx entries = \<lparr>simulationData = Some \<lparr>result = Some \<lparr>auth = Some entries\<rparr>\<rparr>\<rparr>"

definition fakeStartGame ::
  "clientOptions \<Rightarrow> startGameArgs \<Rightarrow> methodOptions \<Rightarrow> jsError + assembledTransaction" where
  "fakeStartGame opts a mo =
     (case session_id a of
        Num n \<Rightarrow>
          Inr (fakeTx [fakeSourceEntry (word_of_int \<lfloor>n\<rfloor>) (player2_points a),
                       fakeStub (player1 a) (word_of_int \<lfloor>n\<rfloor>) (player1_points a)])
      | NaN \<Rightarrow> Inl (Error ''invalid session id'')
      | PosInfinity \<Rightarrow> Inl (Error ''invalid session id'')
      | NegInfinity \<Rightarrow> Inl (Error ''invalid session id''))"

definition fakeCalculate :: "string \<Rightarrow> number \<Rightarrow> jsError + 32 word" where
  "fakeCalculate url m =
     (case m of
        Num n \<Rightarrow> Inr (word_of_int (100000 + \<lfloor>12 * n\<rfloor>))
      | NaN \<Rightarrow> Inl (Error ''invalid ttl'')
      | PosInfinity \<Rightarrow> Inl (Error ''invalid ttl'')
      | NegInfinity \<Rightarrow> Inl (Error ''invalid ttl''))"

definition fakeFromXDR :: "string \<Rightarrow> jsError + sorobanAuthorizationEntry" where
  "fakeFromXDR s =
     (if s = ''S1'' then Inr (fakeSigned ADDR_A ''start_game'' 42 10 100720)
      else if s = ''S2'' then Inr (fakeSigned ADDR_A ''start_game'' 42 (2 ^ 64) 100720)
      else if s = ''S3'' then Inr (fakeSigned ADDR_A ''hit'' 42 10 100720)
      else if s = ''S4'' then Inr (fakeSourceEntry 42 10)
      else if s = ''S5'' then Inr (fakeSigned ADDR_A ''start_game'' 42 10 100360)
      else Inl (Error ''XDR Read Error''))"

definition fakeToXDR :: "sorobanAuthorizationEntry \<Rightarrow> string" where
  "fakeToXDR e =
     (if e = fakeSigned ADDR_A ''start_game'' 42 10 100720 then ''S1''
      else if e = fakeSigned ADDR_A ''start_game'' 42 (2 ^ 64) 100720 then ''S2''
      else if e = fakeSigned ADDR_A ''hit'' 42 10 100720 then ''S3''
      else if e = fakeSourceEntry 42 10 then ''S4''
      else if e = fakeSigned ADDR_A ''start_game'' 42 10 100360 then ''S5''
      else ''AAAA'')"

definition fakeGetGame :: "clientOptions \<Rightarrow> number \<Rightarrow> jsError + nat queryTransaction" where
  "fakeGetGame opts sid =
     (if sid = Num 42 then Inr \<lparr>simulate = Inr \<lparr>queryResult = Inr (Ok 21)\<rparr>\<rparr>
      else Inr \<lparr>simulate = Inr \<lparr>queryResult = Inr (Err ''GameNotFound'')\<rparr>\<rparr>)"

definition fakeGetHandValue ::
  "clientOptions \<Rightarrow> number \<Rightarrow> string \<Rightarrow> jsError + number queryTransaction" where
  "fakeGetHandValue opts sid player =
     (if sid = Num 42 then Inr \<lparr>simulate = Inr \<lparr>queryResult = Inr (Ok (Num 17))\<rparr>\<rparr>
      else Inl (Error ''simulation failed''))"

definition fakeEnv :: "nat env" where
  "fakeEnv =
     \<lparr>TWENTY_ONE_CONTRACT = ''CONTRACT'', NETWORK_PASSPHRASE = ''Test SDF Network'',
      RPC_URL = ''https://rpc.test'', DEFAULT_METHOD_OPTIONS = \<lparr>timeoutInSeconds = 30\<rparr>,
      MULTI_SIG_AUTH_TTL_MINUTES = Num 60,
      start_game = fakeStartGame, get_game = fakeGetGame, get_hand_value = fakeGetHandValue,
      calculateValidUntilLedger = fakeCalculate,
      fromXDR = fakeFromXDR, toXDR = fakeToXDR,
      preimageToXDR = (\<lambda>p. ''PREIMAGE''), verify = (\<lambda>pk p s. Inr True),
      txToXDR = (\<lambda>tx. ''TX''),
      completeLocalSigning = (\<lambda>tx p s. Inr tx)\<rparr>"

definition fakeWallet :: signer where
  "fakeWallet =
     \<lparr>signAuthEntry = Some (\<lambda>p opts. Inr \<lparr>error = None, signedAuthEntry = ''c2ln''\<rparr>)\<rparr>"

definition decliningWallet :: signer where
  "decliningWallet =
     \<lparr>signAuthEntry =
        Some (\<lambda>p opts. Inr \<lparr>error = Some \<lparr>message = ''User declined''\<rparr>,
                            signedAuthEntry = ''''\<rparr>)\<rparr>"

definition raisingWallet :: signer where
  "raisingWallet = \<lparr>signAuthEntry = Some (\<lambda>p opts. Inl (Error ''wallet closed''))\<rparr>"

text \<open>A ledger whose simulation asks for no authorization of player 1.\<close>

definition fakeEnvNoStub :: "nat env" where
  "fakeEnvNoStub =
     fakeEnv\<lparr>start_game :=
               \<lambda>opts a mo. Inr (fakeTx [fakeSourceEntry 42 15, fakeStub ADDR_B 42 10])\<rparr>"

text \<open>A ledger whose simulation asks for the authorization of a muxed account.\<close>

definition fakeEnvMuxed :: "nat env" where
  "fakeEnvMuxed =
     fakeEnv\<lparr>start_game := \<lambda>opts a mo. Inr (fakeTx [fakeMuxedStub ''MADDR'' 42 10])\<rparr>"

text \<open>A ledger whose simulation carries no authorization data at all.\<close>

definition fakeEnvNoAuth :: "nat env" where
  "fakeEnvNoAuth = fakeEnv\<lparr>start_game := \<lambda>opts a mo. Inr \<lparr>simulationData = None\<rparr>\<rparr>"

section \<open>Sequencing and the record of requests\<close>

lemma io_bind_call_Inr [simp]:
  "io_bind (io_call c (Inr x)) f = (c # fst (f x), snd (f x))"
  by (simp add: io_bind_def io_call_def)

lemma io_bind_call_Inl [simp]:
  "io_bind (io_call c (Inl e)) f = ([c], Inl e)"
  by (simp add: io_bind_def io_call_def)

lemma fst_io_bind:
  "fst (io_bind m f) = (case snd m of Inl e \<Rightarrow> fst m | Inr x \<Rightarrow> fst m @ fst (f x))"
  by (simp add: io_bind_def split: sum.splits)

lemma snd_io_bind:
  "snd (io_bind m f) = (case snd m of Inl e \<Rightarrow> Inl e | Inr x \<Rightarrow> snd (f x))"
  by (simp add: io_bind_def split: sum.splits)

lemma ttlRequests_append [simp]: "ttlRequests (xs @ ys) = ttlRequests xs @ ttlRequests ys"
  by (induction xs rule: ttlRequests.induct) auto

lemma buildRequests_append [simp]:
  "buildRequests (xs @ ys) = buildRequests xs @ buildRequests ys"
  by (induction xs rule: buildRequests.induct) auto

lemmas fake_defs =
  fakeEnv_def twentyOneClient_def fakeStartGame_def fakeTx_def
  simulationAuth_def fakeSourceEntry_def fakeStub_def validUntilLedger_def fakeCalculate_def
  fakeWallet_def authorizeEntry_def signPreimage_def
  fakeToXDR_def fakeFromXDR_def fakeSigned_def fakeInvocation_def i128OfInt_def
  io_return_def io_throw_def io_bind_def io_call_def ADDR_A_def ADDR_B_def

section \<open>The locator\<close>

lemma findPlayer1AuthEntry_find:
  "findPlayer1AuthEntry es x = List.find (\<lambda>e. signerAddress e = Some x) es"
  by (induction es) (auto simp: signerAddress_def split: sorobanCredentials.splits sum.splits)

lemma find_filter_single: "filter P es = [e] \<Longrightarrow> List.find P es = Some e"
  by (induction es) (auto split: if_splits)

lemma find_None_filter: "filter P es = [] \<Longrightarrow> List.find P es = None"
  by (induction es) (auto split: if_splits)

lemma find_first: "filter P pre = [] \<Longrightarrow> P m \<Longrightarrow> List.find P (pre @ m # post) = Some m"
  by (induction pre) (auto split: if_splits)

lemma findPlayer1AuthEntry_skips_source:
  "credentials s = SorobanCredentialsSourceAccount \<Longrightarrow>
   findPlayer1AuthEntry (pre @ s # post) x = findPlayer1AuthEntry (pre @ post) x"
  by (induction pre) (auto split: sorobanCredentials.splits sum.splits)

lemma findPlayer1AuthEntry_address:
  "findPlayer1AuthEntry es p1 = Some e \<Longrightarrow> signerAddress e = Some p1"
  by (auto simp: findPlayer1AuthEntry_find dest: find_Some_iff [THEN iffD1])

lemma signerAddress_Some_credentials:
  "signerAddress e = Some a \<Longrightarrow>
   \<exists>c. credentials e = SorobanCredentialsAddress c \<and> addressToString (address c) = Inr a"
  by (auto simp: signerAddress_def split: sorobanCredentials.splits sum.splits)

text \<open>
  C3. The scan returns the first entry, in list order, whose credentials are address
  credentials and whose address text (of whatever address kind) equals the target. So
  when exactly one entry of the list matches, that entry is returned, wherever it stands
  and whatever surrounds it; when several match, the one with no match before it is
  returned; and an entry with source-account credentials, which has no address to look
  at, changes nothing.
\<close>

theorem locator_first_match:
  "findPlayer1AuthEntry es x = List.find (\<lambda>e. signerAddress e = Some x) es
   \<and> (filter (\<lambda>e. signerAddress e = Some x) es = [e] \<longrightarrow> findPlayer1AuthEntry es x = Some e)
   \<and> (filter (\<lambda>e. signerAddress e = Some x) before = [] \<and> signerAddress m = Some x \<longrightarrow>
        findPlayer1AuthEntry (before @ m # after) x = Some m)
   \<and> (credentials s = SorobanCredentialsSourceAccount \<longrightarrow>
        findPlayer1AuthEntry (pre @ s # post) x = findPlayer1AuthEntry (pre @ post) x)"
proof (intro conjI impI)
  show "findPlayer1AuthEntry es x = List.find (\<lambda>e. signerAddress e = Some x) es"
    by (rule findPlayer1AuthEntry_find)
next
  assume "filter (\<lambda>e. signerAddress e = Some x) es = [e]"
  then show "findPlayer1AuthEntry es x = Some e"
    by (simp add: findPlayer1AuthEntry_find find_filter_single)
next
  assume "filter (\<lambda>e. signerAddress e = Some x) before = [] \<and> signerAddress m = Some x"
  then show "findPlayer1AuthEntry (before @ m # after) x = Some m"
    by (simp add: findPlayer1AuthEntry_find find_first)
next
  assume "credentials s = SorobanCredentialsSourceAccount"
  then show "findPlayer1AuthEntry (pre @ s # post) x = findPlayer1AuthEntry (pre @ post) x"
    by (rule findPlayer1AuthEntry_skips_source)
qed

theorem locator_first_match_witness:
  "filter (\<lambda>e. signerAddress e = Some ADDR_A)
     [fakeSourceEntry 42 15, fakeStub ADDR_B 42 15, fakeStub ADDR_A 42 10] = [fakeStub ADDR_A 42 10]
   \<and> findPlayer1AuthEntry [fakeSourceEntry 42 15, fakeStub ADDR_B 42 15, fakeStub ADDR_A 42 10] ADDR_A
       = Some (fakeStub ADDR_A 42 10)
   \<and> filter (\<lambda>e. signerAddress e = Some ADDR_A) [fakeStub ADDR_B 42 15] = []
   \<and> signerAddress (fakeStub ADDR_A 42 10) = Some ADDR_A
   \<and> findPlayer1AuthEntry ([fakeStub ADDR_B 42 15] @ fakeStub ADDR_A 42 10 # [fakeStub ADDR_A 42 99]) ADDR_A
       = Some (fakeStub ADDR_A 42 10)
   \<and> credentials (fakeSourceEntry 42 15) = SorobanCredentialsSourceAccount
   \<and> findPlayer1AuthEntry ([fakeStub ADDR_B 42 15] @ fakeSourceEntry 42 15 # [fakeStub ADDR_A 42 10]) ADDR_A
       = findPlayer1AuthEntry ([fakeStub ADDR_B 42 15] @ [fakeStub ADDR_A 42 10]) ADDR_A
   \<and> filter (\<lambda>e. signerAddress e = Some ''MADDR'')
         [fakeSourceEntry 42 15, fakeMuxedStub ''MADDR'' 42 10] = [fakeMuxedStub ''MADDR'' 42 10]
   \<and> findPlayer1AuthEntry [fakeSourceEntry 42 15, fakeMuxedStub ''MADDR'' 42 10] ''MADDR''
       = Some (fakeMuxedStub ''MADDR'' 42 10)"
  using locator_first_match
          [of "[fakeSourceEntry 42 15, fakeStub ADDR_B 42 15, fakeStub ADDR_A 42 10]"
              ADDR_A "fakeStub ADDR_A 42 10" "[fakeStub ADDR_B 42 15]" "fakeStub ADDR_A 42 10"
              "[fakeStub ADDR_A 42 99]" "fakeSourceEntry 42 15" "[fakeStub ADDR_B 42 15]"
              "[fakeStub ADDR_A 42 10]"]
        locator_first_match
          [of "[fakeSourceEntry 42 15, fakeMuxedStub ''MADDR'' 42 10]" "''MADDR''"
              "fakeMuxedStub ''MADDR'' 42 10"]
  by (simp add: signerAddress_def fakeStub_def fakeMuxedStub_def fakeSourceEntry_def
        ADDR_A_def ADDR_B_def)

section \<open>Decoding\<close>

lemma parseAuthEntry_start_game:
  assumes "fromXDR env s = Inr e"
    and "credentials e = SorobanCredentialsAddress c"
    and "addressToString (address c) = Inr a"
    and "fn (rootInvocation e) =
           ContractFn \<lparr>contractAddress = k, functionName = ''start_game'',
                       args = [ScvU32 sid, ScvI128 p]\<rparr>"
  shows "parseAuthEntry env s =
           Inr \<lparr>sessionId = Num (of_int (uint sid)), player1' = a,
                player1Points = uint (lo p)\<rparr>"
  using assms by (simp add: parseAuthEntry_def parseAuthEntryBody_def)

lemma i128Value_lo: "hi p = 0 \<Longrightarrow> i128Value p = uint (lo p)"
  by (simp add: i128Value_def)

lemma i128Value_mod: "i128Value p mod 2 ^ 64 = uint (lo p)"
proof -
  have "uint (lo p) < 2 ^ 64"
    using uint_bounded [of "lo p"] by simp
  then show ?thesis
    by (simp add: i128Value_def)
qed

lemma parseAuthEntry_signer:
  assumes "parseAuthEntry env xdr = Inr gp" and "fromXDR env xdr = Inr remote"
  shows "signerAddress remote = Some (player1' gp)"
  using assms
  by (auto simp: parseAuthEntry_def parseAuthEntryBody_def signerAddress_def
           split: sorobanCredentials.splits sum.splits if_splits)

text \<open>
  C1, at the failing input. Player 1 prepares session 42 with 2^64 points. The entry that
  is signed and exported carries 2^64 in its i128 argument (high half 1, low half 0), and
  decoding the exported artifact yields the session id and the signer address, but 0 points:
  \<^verbatim>\<open>args[1].i128().lo().toBigInt()\<close> reads the low half only.
\<close>

theorem roundtrip_drops_high_half:
  "snd (prepareStartGame fakeEnv (Num 42) ADDR_A ADDR_B (2 ^ 64) 15 fakeWallet (Some (Num 60)))
     = Inr ''S2''
   \<and> fromXDR fakeEnv ''S2'' = Inr (fakeSigned ADDR_A ''start_game'' 42 (2 ^ 64) 100720)
   \<and> i128Value (i128OfInt (2 ^ 64)) = 2 ^ 64
   \<and> parseAuthEntry fakeEnv ''S2''
       = Inr \<lparr>sessionId = Num 42, player1' = ADDR_A, player1Points = 0\<rparr>"
  by (simp add: prepareStartGame_def fake_defs i128Value_def parseAuthEntry_def
        parseAuthEntryBody_def)

text \<open>
  C2. An artifact that decodes to an entry whose invocation name is not \<^verbatim>\<open>start_game\<close>,
  or whose argument count is not 2, makes \<^verbatim>\<open>parseAuthEntry\<close> throw: the result is an
  error and no game parameters.
\<close>

theorem parseAuthEntry_shape_rejection:
  assumes "fromXDR env s = Inr e"
    and "contractFn (fn (rootInvocation e)) = Inr cf"
    and "functionName cf \<noteq> ''start_game'' \<or> length (args cf) \<noteq> 2"
  shows "\<exists>m. parseAuthEntry env s = Inl (Error (''Failed to parse auth entry: '' @ m))"
  using assms
  by (auto simp: parseAuthEntry_def parseAuthEntryBody_def
           split: sorobanCredentials.splits sum.splits)

theorem parseAuthEntry_shape_rejection_witness:
  "fromXDR fakeEnv ''S3'' = Inr (fakeSigned ADDR_A ''hit'' 42 10 100720)
   \<and> (\<exists>m. parseAuthEntry fakeEnv ''S3'' = Inl (Error (''Failed to parse auth entry: '' @ m)))"
  using parseAuthEntry_shape_rejection
          [of fakeEnv "''S3''" "fakeSigned ADDR_A ''hit'' 42 10 100720"
              "\<lparr>contractAddress = ScAddressTypeContract ''CONTRACT'', functionName = ''hit'',
                args = [ScvU32 42, ScvI128 (i128OfInt 10)]\<rparr>"]
  by (simp add: fakeEnv_def fakeFromXDR_def fakeSigned_def fakeInvocation_def)

text \<open>
  C9. An artifact that decodes to an entry whose credentials are not address credentials
  makes \<^verbatim>\<open>parseAuthEntry\<close> throw the unsupported-credentials error, which names the
  credential kind; no game parameters are returned.
\<close>

theorem parseAuthEntry_unsupported_credential:
  assumes "fromXDR env s = Inr e"
    and "\<forall>c. credentials e \<noteq> SorobanCredentialsAddress c"
  shows "parseAuthEntry env s =
           Inl (Error (''Failed to parse auth entry: Unsupported credentials type: '' @
                       switchName (credentials e)))"
  using assms
  by (auto simp: parseAuthEntry_def parseAuthEntryBody_def split: sorobanCredentials.splits)

theorem parseAuthEntry_unsupported_credential_witness:
  "fromXDR fakeEnv ''S4'' = Inr (fakeSourceEntry 42 10)
   \<and> parseAuthEntry fakeEnv ''S4'' =
       Inl (Error ''Failed to parse auth entry: Unsupported credentials type: sorobanCredentialsSourceAccount'')"
  using parseAuthEntry_unsupported_credential [of fakeEnv "''S4''" "fakeSourceEntry 42 10"]
  by (simp add: fakeEnv_def fakeFromXDR_def fakeSourceEntry_def)

section \<open>Properties of prepareStartGame\<close>

lemma signPreimage_Some:
  "signAuthEntry w = Some sign \<Longrightarrow>
   signPreimage env w p1 pre =
     ([SignAuthEntry (preimageToXDR env pre) (SignAuthEntryOptions (NETWORK_PASSPHRASE env) p1)],
      case signingRejection
             (sign (preimageToXDR env pre) (SignAuthEntryOptions (NETWORK_PASSPHRASE env) p1)) of
        Some err \<Rightarrow> Inl err
      | None \<Rightarrow>
          Inr (BufferFromBase64
                 (signedAuthEntry
                    (projr (sign (preimageToXDR env pre)
                              (SignAuthEntryOptions (NETWORK_PASSPHRASE env) p1))))))"
  by (cases "sign (preimageToXDR env pre) (SignAuthEntryOptions (NETWORK_PASSPHRASE env) p1)")
     (auto simp: signPreimage_def io_throw_def io_return_def split: option.splits)

lemma signPreimage_None:
  "signAuthEntry w = None \<Longrightarrow>
   signPreimage env w p1 pre = ([], Inl (Error ''Wallet does not support auth entry signing''))"
  by (simp add: signPreimage_def io_throw_def)

lemma fst_signPreimage:
  "fst (signPreimage env w p1 pre) =
     (case signAuthEntry w of
        None \<Rightarrow> []
      | Some sign \<Rightarrow>
          [SignAuthEntry (preimageToXDR env pre) (SignAuthEntryOptions (NETWORK_PASSPHRASE env) p1)])"
  by (simp add: signPreimage_Some signPreimage_None split: option.splits)

lemma fst_authorizeEntry:
  "fst (authorizeEntry env e (signPreimage env w p1) v pass) =
     (case credentials e of
        SorobanCredentialsSourceAccount \<Rightarrow> []
      | SorobanCredentialsAddress c \<Rightarrow>
          fst (signPreimage env w p1
                 (EnvelopeTypeSorobanAuthorization pass (nonce c) (rootInvocation e) v)))"
  by (auto simp: authorizeEntry_def io_return_def io_throw_def fst_io_bind
           split: sorobanCredentials.splits sum.splits)

lemma snd_authorizeEntry_rejected:
  assumes "signAuthEntry w = Some sign"
    and "credentials e = SorobanCredentialsAddress c"
    and "signingRejection
           (sign (preimageToXDR env
                    (EnvelopeTypeSorobanAuthorization pass (nonce c) (rootInvocation e) v))
              (SignAuthEntryOptions (NETWORK_PASSPHRASE env) p1)) = Some err"
  shows "snd (authorizeEntry env e (signPreimage env w p1) v pass) = Inl err"
  using assms by (simp add: authorizeEntry_def snd_io_bind signPreimage_Some)

lemma fst_validUntilLedger:
  "fst (validUntilLedger env ttl) =
     [CalculateValidUntilLedger (RPC_URL env)
        (case ttl of
           None \<Rightarrow> MULTI_SIG_AUTH_TTL_MINUTES env
         | Some m \<Rightarrow> if truthy (Some m) then m else MULTI_SIG_AUTH_TTL_MINUTES env)]"
  by (simp add: validUntilLedger_def io_call_def split: option.splits)



text \<open>
  C4. When the simulation carries no authorization data, or carries a list in which no
  entry has address credentials for player 1 (the empty list included),
  \<^verbatim>\<open>prepareStartGame\<close> throws the not-found error right after the build: it returns no
  artifact and asks neither the TTL calculator nor the wallet.
\<close>

theorem prepareStartGame_not_found:
  assumes "start_game env (twentyOneClient env (Some p2))
             \<lparr>session_id = sid, player1 = p1, player2 = p2,
              player1_points = pp1, player2_points = pp2\<rparr>
             (DEFAULT_METHOD_OPTIONS env) = Inr tx"
    and "case simulationAuth tx of
           None \<Rightarrow> True
         | Some es \<Rightarrow> filter (\<lambda>e. signerAddress e = Some p1) es = []"
  shows "prepareStartGame env sid p1 p2 pp1 pp2 w ttl =
           ([StartGame (twentyOneClient env (Some p2))
               \<lparr>session_id = sid, player1 = p1, player2 = p2,
                player1_points = pp1, player2_points = pp2\<rparr>
               (DEFAULT_METHOD_OPTIONS env)],
            Inl (case simulationAuth tx of
                   None \<Rightarrow> Error ''No auth entries found in simulation''
                 | Some es \<Rightarrow> Error (''No auth entry found for Player 1 ('' @ p1 @ '')'')))"
  using assms
  by (auto simp: prepareStartGame_def io_throw_def findPlayer1AuthEntry_find find_None_filter
           split: option.splits)

theorem prepareStartGame_not_found_witness:
  "prepareStartGame fakeEnvNoStub (Num 42) ADDR_A ADDR_B 10 15 fakeWallet None =
     ([StartGame (twentyOneClient fakeEnvNoStub (Some ADDR_B))
         \<lparr>session_id = Num 42, player1 = ADDR_A, player2 = ADDR_B,
          player1_points = 10, player2_points = 15\<rparr> (DEFAULT_METHOD_OPTIONS fakeEnvNoStub)],
      Inl (Error ''No auth entry found for Player 1 (ADDR_A)''))
   \<and> prepareStartGame fakeEnvNoAuth (Num 42) ADDR_A ADDR_B 10 15 fakeWallet None =
     ([StartGame (twentyOneClient fakeEnvNoAuth (Some ADDR_B))
         \<lparr>session_id = Num 42, player1 = ADDR_A, player2 = ADDR_B,
          player1_points = 10, player2_points = 15\<rparr> (DEFAULT_METHOD_OPTIONS fakeEnvNoAuth)],
      Inl (Error ''No auth entries found in simulation''))"
  using prepareStartGame_not_found [of fakeEnvNoStub ADDR_B "Num 42" ADDR_A 10 15
          "fakeTx [fakeSourceEntry 42 15, fakeStub ADDR_B 42 10]" fakeWallet None]
        prepareStartGame_not_found [of fakeEnvNoAuth ADDR_B "Num 42" ADDR_A 10 15
          "\<lparr>simulationData = None\<rparr>" fakeWallet None]
  by (simp add: fakeEnv_def fakeEnvNoStub_def fakeEnvNoAuth_def fakeTx_def simulationAuth_def
        signerAddress_def fakeSourceEntry_def fakeStub_def ADDR_A_def ADDR_B_def)

text \<open>
  A simulation whose only entry has address credentials for the muxed account player 1
  is not a not-found case: the entry is located, and the TTL calculator and the wallet
  are asked.
\<close>

lemma prepareStartGame_muxed_located:
  "ttlRequests (fst (prepareStartGame fakeEnvMuxed (Num 42) ''MADDR'' ADDR_B 10 15 fakeWallet None))
     = [(''https://rpc.test'', Num 60)]
   \<and> SignAuthEntry ''PREIMAGE'' (SignAuthEntryOptions ''Test SDF Network'' ''MADDR'')
       \<in> set (fst (prepareStartGame fakeEnvMuxed (Num 42) ''MADDR'' ADDR_B 10 15 fakeWallet None))"
  by (simp add: prepareStartGame_def fakeEnvMuxed_def fakeMuxedStub_def fake_defs)

text \<open>
  C6. Whenever the wallet is asked to sign and answers with a rejection (it raises, or
  its result carries an error), \<^verbatim>\<open>prepareStartGame\<close> ends with exactly that rejection:
  the raised value, or the error ``Failed to sign auth entry: ...''. No artifact is
  returned.
\<close>

theorem prepareStartGame_signing_rejected:
  assumes "signAuthEntry w = Some sign"
    and "SignAuthEntry x opts \<in> set (fst (prepareStartGame env sid p1 p2 pp1 pp2 w ttl))"
    and "signingRejection (sign x opts) = Some err"
  shows "snd (prepareStartGame env sid p1 p2 pp1 pp2 w ttl) = Inl err"
proof -
  let ?args = "\<lparr>session_id = sid, player1 = p1, player2 = p2,
                player1_points = pp1, player2_points = pp2\<rparr>"
  from assms(2) obtain tx where tx:
    "start_game env (twentyOneClient env (Some p2)) ?args (DEFAULT_METHOD_OPTIONS env) = Inr tx"
    by (cases "start_game env (twentyOneClient env (Some p2)) ?args (DEFAULT_METHOD_OPTIONS env)")
       (auto simp: prepareStartGame_def)
  from assms(2) tx obtain es where es: "simulationAuth tx = Some es"
    by (cases "simulationAuth tx") (auto simp: prepareStartGame_def io_throw_def)
  from assms(2) tx es obtain e where e: "findPlayer1AuthEntry es p1 = Some e"
    by (cases "findPlayer1AuthEntry es p1") (auto simp: prepareStartGame_def io_throw_def)
  from e obtain c where c: "credentials e = SorobanCredentialsAddress c"
    using findPlayer1AuthEntry_address signerAddress_Some_credentials by blast
  from assms(2) tx es e obtain v where v: "snd (validUntilLedger env ttl) = Inr v"
    by (cases "snd (validUntilLedger env ttl)")
       (auto simp: prepareStartGame_def fst_io_bind fst_validUntilLedger)
  let ?pre = "EnvelopeTypeSorobanAuthorization (NETWORK_PASSPHRASE env) (nonce c)
                (rootInvocation e) v"
  from assms(1,2) tx es e c v have
    "x = preimageToXDR env ?pre \<and> opts = SignAuthEntryOptions (NETWORK_PASSPHRASE env) p1"
    by (auto simp: prepareStartGame_def fst_io_bind fst_validUntilLedger fst_authorizeEntry
                   fst_signPreimage io_return_def split: sum.splits)
  with assms(1,3) c have
    "snd (authorizeEntry env e (signPreimage env w p1) v (NETWORK_PASSPHRASE env)) = Inl err"
    by (simp add: snd_authorizeEntry_rejected)
  with assms(1) tx es e v show ?thesis
    by (simp add: prepareStartGame_def snd_io_bind)
qed

theorem prepareStartGame_signing_rejected_witness:
  "SignAuthEntry ''PREIMAGE'' (SignAuthEntryOptions ''Test SDF Network'' ADDR_A)
     \<in> set (fst (prepareStartGame fakeEnv (Num 42) ADDR_A ADDR_B 10 15 decliningWallet (Some (Num 60))))
   \<and> snd (prepareStartGame fakeEnv (Num 42) ADDR_A ADDR_B 10 15 decliningWallet (Some (Num 60)))
       = Inl (Error ''Failed to sign auth entry: User declined'')
   \<and> SignAuthEntry ''PREIMAGE'' (SignAuthEntryOptions ''Test SDF Network'' ADDR_A)
     \<in> set (fst (prepareStartGame fakeEnv (Num 42) ADDR_A ADDR_B 10 15 raisingWallet (Some (Num 60))))
   \<and> snd (prepareStartGame fakeEnv (Num 42) ADDR_A ADDR_B 10 15 raisingWallet (Some (Num 60)))
       = Inl (Error ''wallet closed'')"
proof -
  let ?c = "SignAuthEntry ''PREIMAGE'' (SignAuthEntryOptions ''Test SDF Network'' ADDR_A)"
  have d: "?c \<in> set (fst (prepareStartGame fakeEnv (Num 42) ADDR_A ADDR_B 10 15
                            decliningWallet (Some (Num 60))))"
    by (simp add: prepareStartGame_def decliningWallet_def fake_defs)
  have r: "?c \<in> set (fst (prepareStartGame fakeEnv (Num 42) ADDR_A ADDR_B 10 15
                            raisingWallet (Some (Num 60))))"
    by (simp add: prepareStartGame_def raisingWallet_def fake_defs)
  have ds: "signAuthEntry decliningWallet =
              Some (\<lambda>p opts. Inr \<lparr>error = Some \<lparr>message = ''User declined''\<rparr>,
                                  signedAuthEntry = ''''\<rparr>)"
    by (simp add: decliningWallet_def)
  have rs: "signAuthEntry raisingWallet = Some (\<lambda>p opts. Inl (Error ''wallet closed''))"
    by (simp add: raisingWallet_def)
  show ?thesis
    using prepareStartGame_signing_rejected
            [OF ds d, of "Error ''Failed to sign auth entry: User declined''"]
          prepareStartGame_signing_rejected [OF rs r, of "Error ''wallet closed''"] d r
    by simp
qed




section \<open>Properties of importAndSignAuthEntry\<close>

lemma replaceStub_None:
  "filter (\<lambda>e. signerAddress e = Some a) stubs = [] \<Longrightarrow> replaceStub stubs a s = None"
  by (induction stubs) (auto split: if_splits)

lemma injectSignedAuthEntry_mismatch:
  assumes "fromXDR env xdr = Inr remote"
    and "signerAddress remote = Some a"
    and "case simulationAuth tx of
           None \<Rightarrow> True
         | Some stubs \<Rightarrow> filter (\<lambda>e. signerAddress e = Some a) stubs = []"
  shows "injectSignedAuthEntry env tx xdr p2 w = ([], Inl AddressMismatch)"
  using assms
  by (auto simp: injectSignedAuthEntry_def io_throw_def replaceStub_None split: option.splits)

lemma buildRequests_authorizeEntry [simp]:
  "buildRequests (fst (authorizeEntry env e (signPreimage env w p1) v pass)) = []"
  by (simp add: fst_authorizeEntry fst_signPreimage split: sorobanCredentials.splits option.splits)

lemma buildRequests_injectSignedAuthEntry [simp]:
  "buildRequests (fst (injectSignedAuthEntry env tx xdr p2 w)) = []"
  by (simp add: injectSignedAuthEntry_def io_throw_def io_call_def split: sum.splits option.splits)

lemma buildRequests_prepareStartGame:
  "buildRequests (fst (prepareStartGame env sid p1 p2 pp1 pp2 w ttl)) =
     [(twentyOneClient env (Some p2),
       \<lparr>session_id = sid, player1 = p1, player2 = p2,
        player1_points = pp1, player2_points = pp2\<rparr>)]"
  by (cases "start_game env (twentyOneClient env (Some p2))
               \<lparr>session_id = sid, player1 = p1, player2 = p2,
                player1_points = pp1, player2_points = pp2\<rparr> (DEFAULT_METHOD_OPTIONS env)")
     (auto simp: prepareStartGame_def fst_io_bind fst_validUntilLedger io_throw_def io_return_def
           split: option.splits sum.splits)

lemma buildRequests_importAndSignAuthEntry:
  "buildRequests (fst (importAndSignAuthEntry env xdr p2 pp2 w)) =
     (case parseAuthEntry env xdr of
        Inl e \<Rightarrow> []
      | Inr gp \<Rightarrow>
          [(twentyOneClient env (Some p2),
            \<lparr>session_id = sessionId gp, player1 = player1' gp, player2 = p2,
             player1_points = player1Points gp, player2_points = pp2\<rparr>)])"
proof (cases "parseAuthEntry env xdr")
  case (Inl e)
  then show ?thesis
    by (simp add: importAndSignAuthEntry_def io_throw_def)
next
  case (Inr gp)
  then show ?thesis
    by (cases "start_game env (twentyOneClient env (Some p2))
                 \<lparr>session_id = sessionId gp, player1 = player1' gp, player2 = p2,
                  player1_points = player1Points gp, player2_points = pp2\<rparr>
                 (DEFAULT_METHOD_OPTIONS env)")
       (auto simp: importAndSignAuthEntry_def fst_io_bind io_return_def split: sum.splits)
qed

text \<open>
  C5. The remote artifact decodes, the bundle is rebuilt, and no address-credential stub
  of the rebuilt bundle has the remote entry's signer address: then
  \<^verbatim>\<open>importAndSignAuthEntry\<close> fails with AddressMismatch, and the merged bundle is never
  formed or handed on (no request after the build is made).
\<close>

theorem importAndSignAuthEntry_address_mismatch:
  assumes "parseAuthEntry env xdr = Inr gp"
    and "fromXDR env xdr = Inr remote"
    and "start_game env (twentyOneClient env (Some p2))
           \<lparr>session_id = sessionId gp, player1 = player1' gp, player2 = p2,
            player1_points = player1Points gp, player2_points = pp2\<rparr>
           (DEFAULT_METHOD_OPTIONS env) = Inr tx"
    and "case simulationAuth tx of
           None \<Rightarrow> True
         | Some stubs \<Rightarrow> filter (\<lambda>e. signerAddress e = signerAddress remote) stubs = []"
  shows "snd (importAndSignAuthEntry env xdr p2 pp2 w) = Inl AddressMismatch
         \<and> filter isMerge (fst (importAndSignAuthEntry env xdr p2 pp2 w)) = []"
proof -
  have a: "signerAddress remote = Some (player1' gp)"
    using assms(1,2) by (rule parseAuthEntry_signer)
  have n: "case simulationAuth tx of
             None \<Rightarrow> True
           | Some stubs \<Rightarrow> filter (\<lambda>e. signerAddress e = Some (player1' gp)) stubs = []"
    using assms(4) unfolding a .
  have "injectSignedAuthEntry env tx xdr p2 w = ([], Inl AddressMismatch)"
    using assms(2) a n by (rule injectSignedAuthEntry_mismatch)
  with assms(1,3) show ?thesis
    by (simp add: importAndSignAuthEntry_def io_bind_def io_call_def)
qed

theorem importAndSignAuthEntry_address_mismatch_witness:
  "parseAuthEntry fakeEnvNoStub ''S1''
     = Inr \<lparr>sessionId = Num 42, player1' = ADDR_A, player1Points = 10\<rparr>
   \<and> snd (importAndSignAuthEntry fakeEnvNoStub ''S1'' ADDR_B 15 fakeWallet) = Inl AddressMismatch
   \<and> filter isMerge (fst (importAndSignAuthEntry fakeEnvNoStub ''S1'' ADDR_B 15 fakeWallet)) = []"
proof -
  let ?gp = "\<lparr>sessionId = Num 42, player1' = ADDR_A, player1Points = 10\<rparr>"
  let ?tx = "fakeTx [fakeSourceEntry 42 15, fakeStub ADDR_B 42 10]"
  have f: "fromXDR fakeEnvNoStub ''S1'' = Inr (fakeSigned ADDR_A ''start_game'' 42 10 100720)"
    by (simp add: fakeEnvNoStub_def fakeEnv_def fakeFromXDR_def)
  have p: "parseAuthEntry fakeEnvNoStub ''S1'' = Inr ?gp"
    by (simp add: parseAuthEntry_def parseAuthEntryBody_def fakeEnvNoStub_def fakeEnv_def
                  fakeFromXDR_def fakeSigned_def fakeInvocation_def i128OfInt_def)
  have b: "start_game fakeEnvNoStub (twentyOneClient fakeEnvNoStub (Some ADDR_B))
             \<lparr>session_id = sessionId ?gp, player1 = player1' ?gp, player2 = ADDR_B,
              player1_points = player1Points ?gp, player2_points = 15\<rparr>
             (DEFAULT_METHOD_OPTIONS fakeEnvNoStub) = Inr ?tx"
    by (simp add: fakeEnvNoStub_def)
  have n: "case simulationAuth ?tx of
             None \<Rightarrow> True
           | Some stubs \<Rightarrow>
               filter (\<lambda>e. signerAddress e =
                            signerAddress (fakeSigned ADDR_A ''start_game'' 42 10 100720)) stubs = []"
    by (simp add: simulationAuth_def fakeTx_def signerAddress_def fakeSourceEntry_def fakeStub_def
                  fakeSigned_def ADDR_A_def ADDR_B_def)
  show ?thesis
    using importAndSignAuthEntry_address_mismatch [OF p f b n, of fakeWallet] p by simp
qed

text \<open>
  C8. \<^verbatim>\<open>prepareStartGame\<close> makes exactly one build request: for a client whose public
  key is player 2, with the five arguments it was given. \<^verbatim>\<open>importAndSignAuthEntry\<close>,
  after a successful decode, makes exactly one build request: for a client whose public
  key is the local player 2, with the decoded session id, player 1 address and player 1
  points and the local player 2 address and points.
\<close>

theorem rebuild_from_decoded_arguments:
  "buildRequests (fst (prepareStartGame env sid p1 p2 pp1 pp2 w ttl)) =
     [(twentyOneClient env (Some p2),
       \<lparr>session_id = sid, player1 = p1, player2 = p2,
        player1_points = pp1, player2_points = pp2\<rparr>)]
   \<and> (parseAuthEntry env xdr = Inr gp \<longrightarrow>
        buildRequests (fst (importAndSignAuthEntry env xdr q2 qq2 w2)) =
          [(twentyOneClient env (Some q2),
            \<lparr>session_id = sessionId gp, player1 = player1' gp, player2 = q2,
             player1_points = player1Points gp, player2_points = qq2\<rparr>)])
   \<and> publicKey (twentyOneClient env (Some q2)) = Some q2"
  by (simp add: buildRequests_prepareStartGame buildRequests_importAndSignAuthEntry
                twentyOneClient_def)

theorem rebuild_from_decoded_arguments_witness:
  "parseAuthEntry fakeEnv ''S1'' = Inr \<lparr>sessionId = Num 42, player1' = ADDR_A, player1Points = 10\<rparr>
   \<and> buildRequests (fst (importAndSignAuthEntry fakeEnv ''S1'' ADDR_B 15 fakeWallet)) =
       [(twentyOneClient fakeEnv (Some ADDR_B),
         \<lparr>session_id = Num 42, player1 = ADDR_A, player2 = ADDR_B,
          player1_points = 10, player2_points = 15\<rparr>)]
   \<and> buildRequests (fst (prepareStartGame fakeEnv (Num 42) ADDR_A ADDR_B 10 15 fakeWallet
                           (Some (Num 60)))) =
       [(twentyOneClient fakeEnv (Some ADDR_B),
         \<lparr>session_id = Num 42, player1 = ADDR_A, player2 = ADDR_B,
          player1_points = 10, player2_points = 15\<rparr>)]
   \<and> snd (importAndSignAuthEntry fakeEnv ''S1'' ADDR_B 15 fakeWallet) = Inr ''TX''"
proof -
  have p: "parseAuthEntry fakeEnv ''S1''
             = Inr \<lparr>sessionId = Num 42, player1' = ADDR_A, player1Points = 10\<rparr>"
    by (simp add: parseAuthEntry_def parseAuthEntryBody_def fakeEnv_def fakeFromXDR_def
                  fakeSigned_def fakeInvocation_def i128OfInt_def)
  have s: "snd (importAndSignAuthEntry fakeEnv ''S1'' ADDR_B 15 fakeWallet) = Inr ''TX''"
    by (simp add: importAndSignAuthEntry_def p)
       (simp add: injectSignedAuthEntry_def signerAddress_def fake_defs)
  show ?thesis
    using rebuild_from_decoded_arguments
            [of fakeEnv "Num 42" ADDR_A ADDR_B 10 15 fakeWallet "Some (Num 60)" "''S1''"
                "\<lparr>sessionId = Num 42, player1' = ADDR_A, player1Points = 10\<rparr>"
                ADDR_B 15 fakeWallet] p s
    by simp
qed

section \<open>The read queries\<close>

text \<open>
  C10. \<^verbatim>\<open>getGame\<close> and \<^verbatim>\<open>getHandValue\<close> never throw: they return the unwrapped value
  when the query was built, simulated and answered with an Ok result, and \<^verbatim>\<open>null\<close> in
  every other case (the build or the simulation rejects, reading the result throws, or
  the contract returned an error).
\<close>

theorem queries_total:
  "snd (getGame env sid) =
     Inr (case get_game env (twentyOneClient env None) sid of
            Inl e \<Rightarrow> None
          | Inr tx \<Rightarrow>
              (case simulate tx of
                 Inl e \<Rightarrow> None
               | Inr res \<Rightarrow>
                   (case queryResult res of
                      Inl e \<Rightarrow> None
                    | Inr r \<Rightarrow> (case r of Ok v \<Rightarrow> Some v | Err c \<Rightarrow> None))))
   \<and> snd (getHandValue env sid player) =
     Inr (case get_hand_value env (twentyOneClient env None) sid player of
            Inl e \<Rightarrow> None
          | Inr tx \<Rightarrow>
              (case simulate tx of
                 Inl e \<Rightarrow> None
               | Inr res \<Rightarrow>
                   (case queryResult res of
                      Inl e \<Rightarrow> None
                    | Inr r \<Rightarrow> (case r of Ok v \<Rightarrow> Some v | Err c \<Rightarrow> None))))"
  by (auto simp: getGame_def getHandValue_def catchNull_def queryBody_def snd_io_bind
                 io_call_def io_throw_def io_return_def
           split: sum.splits contractResult.splits)

theorem queries_total_witness:
  "snd (getGame fakeEnv (Num 42)) = Inr (Some 21)
   \<and> snd (getGame fakeEnv (Num 7)) = Inr None
   \<and> snd (getHandValue fakeEnv (Num 42) ADDR_A) = Inr (Some (Num 17))
   \<and> snd (getHandValue fakeEnv (Num 7) ADDR_A) = Inr None"
  using queries_total [of fakeEnv "Num 42" ADDR_A] queries_total [of fakeEnv "Num 7" ADDR_A]
  by (simp add: fakeEnv_def fakeGetGame_def fakeGetHandValue_def)

end
